theory Spec2Isabelle
  imports Main
begin

section \<open>The join-waitlist signup handler\<close>

text \<open>
  The development embeds \<^verbatim>\<open>supabase/functions/join-waitlist/index.ts\<close> together with the
  two tables of \<^verbatim>\<open>supabase/migrations/20240101000000_initial_schema.sql\<close>.

  Conventions of the embedding:
  \<^item> a string is a list of characters, each one code unit in the range U+0000 to U+00FF;
  \<^item> the properties of the request body have the handler's declared type
    \<^verbatim>\<open>JoinWaitlistRequest\<close>: each one, when present, is a string. A property that is
    absent (or carries a falsy value that is not a string) is \<open>None\<close>;
  \<^item> the tables are lists of rows, a row added last;
  \<^item> the two calls to the database service return either an error or the data, as the
    client library's single-row response does; the service may also fail for reasons of
    its own, which the per-request environment \<open>env\<close> carries;
  \<^item> an exception inside the \<^verbatim>\<open>try\<close> block is a value \<open>Inl\<close> of type \<open>exn\<close>.
\<close>

subsection \<open>String operations of the handler\<close>

text \<open>
  \<^verbatim>\<open>email.toLowerCase().trim()\<close>. On the code units up to U+00FF the upper-case letters are
  A to Z and U+00C0 to U+00DE without the multiplication sign U+00D7, each 32 below its
  lower-case letter; the white space that \<^verbatim>\<open>trim\<close> removes from both ends is tab, line
  feed, vertical tab, form feed, carriage return, space and the no-break space U+00A0.
\<close>

definition lower_char :: "char \<Rightarrow> char" where
  "lower_char c =
     (let n = (of_char c :: nat)
      in if (65 \<le> n \<and> n \<le> 90) \<or> (192 \<le> n \<and> n \<le> 222 \<and> n \<noteq> 215)
         then char_of (n + 32) else c)"

definition toLowerCase :: "string \<Rightarrow> string" where
  "toLowerCase s = map lower_char s"

definition white_space :: "char \<Rightarrow> bool" where
  "white_space c = ((of_char c :: nat) \<in> {9, 10, 11, 12, 13, 32, 160})"

definition trim :: "string \<Rightarrow> string" where
  "trim s = rev (dropWhile white_space (rev (dropWhile white_space s)))"

subsection \<open>Column types of the schema\<close>

text \<open>
  A \<^verbatim>\<open>UUID\<close> value is the number that its thirty-two hexadecimal digits denote. An error
  of the database service carries a code, which is all the handler looks at.
\<close>

type_synonym uuid = int

datatype pg_error = PgError (code: string) (details: string)

definition invalid_text_representation :: pg_error where
  "invalid_text_representation = PgError ''22P02'' ''invalid input syntax for type uuid''"

definition string_data_right_truncation :: pg_error where
  "string_data_right_truncation = PgError ''22001'' ''value too long for type character varying''"

definition untranslatable_character :: pg_error where
  "untranslatable_character = PgError ''22P05'' ''unsupported Unicode escape sequence''"

definition check_violation :: pg_error where
  "check_violation = PgError ''23514'' ''valid_email_format''"

definition unique_violation :: "string \<Rightarrow> pg_error" where
  "unique_violation constraint_name = PgError ''23505'' constraint_name"

definition foreign_key_violation :: pg_error where
  "foreign_key_violation = PgError ''23503'' ''waitlist_entries_application_id_fkey''"

definition no_single_row :: pg_error where
  "no_single_row = PgError ''PGRST116'' ''JSON object requested, multiple (or no) rows returned''"

definition hex_digit :: "char \<Rightarrow> int option" where
  "hex_digit c =
     (let n = (of_char c :: int)
      in if 48 \<le> n \<and> n \<le> 57 then Some (n - 48)
         else if 97 \<le> n \<and> n \<le> 102 then Some (n - 87)
         else if 65 \<le> n \<and> n \<le> 70 then Some (n - 55)
         else None)"

text \<open>
  The text of a \<^verbatim>\<open>UUID\<close> as the database reads it: sixteen bytes of two hexadecimal
  digits each, in either case; a hyphen may follow any group of four digits but the
  last; the whole may stand in braces. The first argument of \<open>uuid_bytes\<close> counts the
  bytes still to read, so byte number \<open>i = 15 - k\<close> is read at \<open>Suc k\<close>.
\<close>

fun uuid_bytes :: "nat \<Rightarrow> uuid \<Rightarrow> string \<Rightarrow> (uuid \<times> string) option" where
  "uuid_bytes 0 acc src = Some (acc, src)"
| "uuid_bytes (Suc k) acc (a # b # rest) =
     (case hex_digit a of
        None \<Rightarrow> None
      | Some h \<Rightarrow>
          (case hex_digit b of
             None \<Rightarrow> None
           | Some l \<Rightarrow>
               uuid_bytes k (acc * 256 + h * 16 + l)
                 (case rest of
                    [] \<Rightarrow> []
                  | c # rest' \<Rightarrow>
                      if c = CHR ''-'' \<and> odd (15 - k) \<and> 15 - k < 15 then rest' else rest)))"
| "uuid_bytes (Suc k) acc src = None"

definition uuid_in :: "string \<Rightarrow> uuid option" where
  "uuid_in s =
     (let braces = (case s of [] \<Rightarrow> False | c # _ \<Rightarrow> c = CHR ''{'');
          src = (if braces then tl s else s)
      in case uuid_bytes 16 0 src of
           None \<Rightarrow> None
         | Some (u, rest) \<Rightarrow> if rest = (if braces then ''}'' else []) then Some u else None)"

text \<open>
  \<^verbatim>\<open>TEXT\<close> and \<^verbatim>\<open>VARCHAR(n)\<close>: a text cannot hold the character U+0000, and a value
  longer than \<open>n\<close> characters is an error unless all that exceeds \<open>n\<close> is spaces, which
  are then cut off.
\<close>

definition text_in :: "string \<Rightarrow> pg_error + string" where
  "text_in s = (if CHR 0x00 \<in> set s then Inl untranslatable_character else Inr s)"

definition varchar_in :: "nat \<Rightarrow> string \<Rightarrow> pg_error + string" where
  "varchar_in n s =
     (if CHR 0x00 \<in> set s then Inl untranslatable_character
      else if length s \<le> n then Inr s
      else if list_all (\<lambda>c. c = CHR '' '') (drop n s) then Inr (take n s)
      else Inl string_data_right_truncation)"

subsection \<open>The check constraint on emails\<close>

text \<open>
  \<^verbatim>\<open>CHECK (email ~* '^[A-Za-z0-9._%+-]+@[A-Za-z0-9.-]+\.[A-Za-z]{2,}$')\<close>:
  the whole string is a local part, an at sign, a domain, a dot and a top-level
  name, tried at every position where the string can be cut.
\<close>

definition alpha :: "char \<Rightarrow> bool" where
  "alpha c = (let n = (of_char c :: nat) in (65 \<le> n \<and> n \<le> 90) \<or> (97 \<le> n \<and> n \<le> 122))"

definition digit :: "char \<Rightarrow> bool" where
  "digit c = (let n = (of_char c :: nat) in 48 \<le> n \<and> n \<le> 57)"

definition local_char :: "char \<Rightarrow> bool" where
  "local_char c = (alpha c \<or> digit c \<or> c \<in> set ''._%+-'')"

definition domain_char :: "char \<Rightarrow> bool" where
  "domain_char c = (alpha c \<or> digit c \<or> c \<in> set ''.-'')"

fun splits :: "'a list \<Rightarrow> ('a list \<times> 'a list) list" where
  "splits [] = [([], [])]"
| "splits (x # xs) = ([], x # xs) # map (\<lambda>(l, r). (x # l, r)) (splits xs)"

definition domain_and_tld :: "string \<Rightarrow> bool" where
  "domain_and_tld s =
     list_ex (\<lambda>(dom, r).
        dom \<noteq> [] \<and> list_all domain_char dom \<and>
        (case r of
           [] \<Rightarrow> False
         | c # tld \<Rightarrow> c = CHR ''.'' \<and> 2 \<le> length tld \<and> list_all alpha tld))
       (splits s)"

definition valid_email_format :: "string \<Rightarrow> bool" where
  "valid_email_format s =
     list_ex (\<lambda>(local, r).
        local \<noteq> [] \<and> list_all local_char local \<and>
        (case r of
           [] \<Rightarrow> False
         | c # r' \<Rightarrow> c = CHR ''@'' \<and> domain_and_tld r'))
       (splits s)"

subsection \<open>The tables\<close>

text \<open>
  A row of \<^verbatim>\<open>applications\<close> and a row of \<^verbatim>\<open>waitlist_entries\<close>, column by column, the
  columns of the first prefixed with \<open>app_\<close> and those of the second with \<open>we_\<close>. A
  time is a number of milliseconds.
\<close>

record application =
  app_application_id :: uuid
  app_application_name :: string
  app_created_at :: int

record waitlist_entry =
  we_id :: uuid
  we_application_id :: uuid
  we_email :: string
  we_source_url :: string
  we_country :: "string option"
  we_created_at :: int

record db =
  applications :: "application list"
  waitlist_entries :: "waitlist_entry list"

text \<open>The pairs of application and email that the entries hold.\<close>

definition registered :: "db \<Rightarrow> (uuid \<times> string) list" where
  "registered d = map (\<lambda>r. (we_application_id r, we_email r)) (waitlist_entries d)"

text \<open>
  What a request finds around it: the clock that \<^verbatim>\<open>new Date()\<close> reads, and for each of the
  two calls to the database service the error, if any, with which the service fails
  before it has done anything (it cannot be reached, it is overloaded).
\<close>

record env =
  now :: int
  lookup_failure :: "pg_error option"
  insert_failure :: "pg_error option"

text \<open>
  \<^verbatim>\<open>DEFAULT gen_random_uuid()\<close>: an identifier that no row of the table carries. Which one
  is immaterial; the embedding takes the successor of the largest one in use.
\<close>

definition gen_random_uuid :: "db \<Rightarrow> uuid" where
  "gen_random_uuid d = 1 + foldr max (map we_id (waitlist_entries d)) 0"

text \<open>
  \<^verbatim>\<open>supabase.from('applications').select('application_id').eq('application_id', applicationId).single()\<close>:
  the rows whose key equals the given text read as a \<^verbatim>\<open>UUID\<close>; anything but exactly one
  row is an error.
\<close>

definition select_application :: "env \<Rightarrow> db \<Rightarrow> string \<Rightarrow> pg_error + uuid" where
  "select_application e d applicationId =
     (case lookup_failure e of
        Some err \<Rightarrow> Inl err
      | None \<Rightarrow>
          (case uuid_in applicationId of
             None \<Rightarrow> Inl invalid_text_representation
           | Some u \<Rightarrow>
               (case filter (\<lambda>a. app_application_id a = u) (applications d) of
                  [a] \<Rightarrow> Inr (app_application_id a)
                | _ \<Rightarrow> Inl no_single_row)))"

text \<open>
  The object given to \<^verbatim>\<open>insert\<close>, and its values read into the column types of
  \<^verbatim>\<open>waitlist_entries\<close>; \<^verbatim>\<open>id\<close> is not among them and takes its default.
\<close>

record insert_values =
  application_id :: string
  email :: string
  source_url :: string
  country :: "string option"
  created_at :: int

definition coerce_row :: "uuid \<Rightarrow> insert_values \<Rightarrow> pg_error + waitlist_entry" where
  "coerce_row new_id v =
     (case uuid_in (application_id v) of
        None \<Rightarrow> Inl invalid_text_representation
      | Some u \<Rightarrow>
          (case varchar_in 320 (email v) of
             Inl err \<Rightarrow> Inl err
           | Inr em \<Rightarrow>
               (case text_in (source_url v) of
                  Inl err \<Rightarrow> Inl err
                | Inr src \<Rightarrow>
                    (case country v of
                       None \<Rightarrow>
                         Inr \<lparr>we_id = new_id, we_application_id = u, we_email = em,
                              we_source_url = src, we_country = None,
                              we_created_at = created_at v\<rparr>
                     | Some c \<Rightarrow>
                         (case varchar_in 2 c of
                            Inl err \<Rightarrow> Inl err
                          | Inr c' \<Rightarrow>
                              Inr \<lparr>we_id = new_id, we_application_id = u, we_email = em,
                                   we_source_url = src, we_country = Some c',
                                   we_created_at = created_at v\<rparr>)))))"

text \<open>
  \<^verbatim>\<open>supabase.from('waitlist_entries').insert({...}).select('id').single()\<close> against the
  constraints of the table, in the order in which the database checks them: the column
  types, the check on the email, the primary key, the uniqueness of
  \<^verbatim>\<open>(application_id, email)\<close> and the foreign key. A failed insert leaves the table as
  it was; a successful one returns the identifier of the new row.
\<close>

definition insert_waitlist_entry :: "env \<Rightarrow> db \<Rightarrow> insert_values \<Rightarrow> (pg_error + uuid) \<times> db" where
  "insert_waitlist_entry e d v =
     (case insert_failure e of
        Some err \<Rightarrow> (Inl err, d)
      | None \<Rightarrow>
          (case coerce_row (gen_random_uuid d) v of
             Inl err \<Rightarrow> (Inl err, d)
           | Inr row \<Rightarrow>
               if \<not> valid_email_format (we_email row) then (Inl check_violation, d)
               else if we_id row \<in> set (map we_id (waitlist_entries d))
                 then (Inl (unique_violation ''waitlist_entries_pkey''), d)
               else if (we_application_id row, we_email row) \<in> set (registered d)
                 then (Inl (unique_violation ''waitlist_entries_application_id_email_key''), d)
               else if we_application_id row \<notin> set (map app_application_id (applications d))
                 then (Inl foreign_key_violation, d)
               else (Inr (we_id row), d\<lparr>waitlist_entries := waitlist_entries d @ [row]\<rparr>)))"

subsection \<open>Requests and responses\<close>

text \<open>
  The four properties that the handler reads from the parsed body. The request's
  \<^verbatim>\<open>email\<close> and \<^verbatim>\<open>country\<close> are \<open>email_field\<close> and \<open>country_field\<close> here, the names
  \<open>email\<close> and \<open>country\<close> being those of the inserted values.
\<close>

record JoinWaitlistRequest =
  applicationId :: "string option"
  email_field :: "string option"
  sourceUrl :: "string option"
  country_field :: "string option"

text \<open>
  What \<^verbatim>\<open>await req.json()\<close> and the destructuring of line 36 make of the body: the promise
  rejects when the body is not valid JSON; the value \<^verbatim>\<open>null\<close> cannot be destructured;
  any other value is read through its properties.
\<close>

datatype json_body = Rejected | Null | Properties JoinWaitlistRequest

text \<open>The request: \<^verbatim>\<open>req.method\<close> and the outcome of reading its body.\<close>

record request =
  req_method :: string
  json :: json_body

record result_body =
  success :: bool
  id_field :: "uuid option"
  message :: string

datatype body = Text string | Json result_body

record response =
  status :: nat
  headers :: "(string \<times> string) list"
  body :: body

datatype exn = SyntaxError | TypeError | Thrown pg_error

definition corsHeaders :: "(string \<times> string) list" where
  "corsHeaders =
     [(''Access-Control-Allow-Origin'', ''*''),
      (''Access-Control-Allow-Headers'', ''authorization, x-client-info, apikey, content-type''),
      (''Access-Control-Allow-Methods'', ''POST, OPTIONS'')]"

definition json_response :: "nat \<Rightarrow> result_body \<Rightarrow> response" where
  "json_response st b =
     \<lparr>status = st, headers = corsHeaders @ [(''Content-Type'', ''application/json'')],
      body = Json b\<rparr>"

definition failure :: "string \<Rightarrow> result_body" where
  "failure msg = \<lparr>success = False, id_field = None, message = msg\<rparr>"

text \<open>JavaScript's \<^verbatim>\<open>!x\<close> on a property: absent, null or the empty string.\<close>

definition falsy :: "string option \<Rightarrow> bool" where
  "falsy x = (case x of None \<Rightarrow> True | Some s \<Rightarrow> s = [])"

subsection \<open>The handler\<close>

text \<open>
  The body of the \<^verbatim>\<open>try\<close> block, lines 31 to 86. The client of line 31 is built from the
  settings of the platform without any request being made; it is the pair of functions
  \<open>select_application\<close> and \<open>insert_waitlist_entry\<close>.
\<close>

definition try_block :: "env \<Rightarrow> db \<Rightarrow> request \<Rightarrow> (exn + response) \<times> db" where
  "try_block e d req =
     (case json req of
        Rejected \<Rightarrow> (Inl SyntaxError, d)
      | Null \<Rightarrow> (Inl TypeError, d)
      | Properties b \<Rightarrow>
          if falsy (applicationId b) \<or> falsy (email_field b) \<or> falsy (sourceUrl b)
          then (Inr (json_response 400 (failure ''Missing required fields'')), d)
          else
            (case (applicationId b, email_field b, sourceUrl b) of
               (Some a, Some em, Some src) \<Rightarrow>
                 (case select_application e d a of
                    Inl appError \<Rightarrow>
                      (Inr (json_response 400 (failure ''Invalid application ID'')), d)
                  | Inr app \<Rightarrow>
                      (case insert_waitlist_entry e d
                              \<lparr>application_id = a,
                               email = trim (toLowerCase em),
                               source_url = src,
                               country = (if falsy (country_field b) then None
                                          else country_field b),
                               created_at = now e\<rparr> of
                         (Inl error, d') \<Rightarrow>
                           if code error = ''23505''
                           then (Inr (json_response 409 (failure ''Email already registered'')), d')
                           else (Inl (Thrown error), d')
                       | (Inr data, d') \<Rightarrow>
                           (Inr (json_response 201
                                  \<lparr>success = True, id_field = Some data,
                                   message = ''Successfully joined waitlist''\<rparr>), d')))
             | _ \<Rightarrow> (Inr (json_response 400 (failure ''Missing required fields'')), d)))"

definition handler :: "env \<Rightarrow> db \<Rightarrow> request \<Rightarrow> response \<times> db" where
  "handler e d req =
     (if req_method req = ''OPTIONS''
      then (\<lparr>status = 200, headers = corsHeaders, body = Text ''ok''\<rparr>, d)
      else if req_method req \<noteq> ''POST''
      then (json_response 405 (failure ''Method not allowed''), d)
      else
        (case try_block e d req of
           (Inr resp, d') \<Rightarrow> (resp, d')
         | (Inl error, d') \<Rightarrow> (json_response 500 (failure ''Internal server error''), d')))"

text \<open>The object that the handler passes to the insert.\<close>

abbreviation inserted_values ::
  "env \<Rightarrow> JoinWaitlistRequest \<Rightarrow> string \<Rightarrow> string \<Rightarrow> string \<Rightarrow> insert_values" where
  "inserted_values e b a em src \<equiv>
     \<lparr>application_id = a, email = trim (toLowerCase em), source_url = src,
      country = (if falsy (country_field b) then None else country_field b),
      created_at = now e\<rparr>"

subsection \<open>Sequences of requests, and the properties of a table\<close>


text \<open>
  The states the handler can bring about: it starts with the applications created
  beforehand and no entry, and every request is a step.
\<close>

inductive reachable :: "db \<Rightarrow> bool" where
  initial: "waitlist_entries d = [] \<Longrightarrow> reachable d"
| step: "reachable d \<Longrightarrow> reachable (snd (handler e d req))"

text \<open>\<^verbatim>\<open>UNIQUE(application_id, email)\<close> as a property of the table.\<close>

definition unique_application_email :: "db \<Rightarrow> bool" where
  "unique_application_email d = distinct (registered d)"

text \<open>\<^verbatim>\<open>application_id UUID PRIMARY KEY\<close> as a property of the table of applications.\<close>

definition applications_pkey :: "db \<Rightarrow> bool" where
  "applications_pkey d = distinct (map app_application_id (applications d))"

text \<open>A query by identifier: \<^verbatim>\<open>select * from waitlist_entries where id = i\<close>.\<close>

definition select_entry :: "db \<Rightarrow> uuid \<Rightarrow> waitlist_entry list" where
  "select_entry d i = filter (\<lambda>r. we_id r = i) (waitlist_entries d)"

text \<open>
  A country the handler can store: none (absent, null or empty, stored as null), or a
  text that the column \<^verbatim>\<open>country VARCHAR(2)\<close> takes.
\<close>

definition country_accepted :: "string option \<Rightarrow> bool" where
  "country_accepted c =
     (case c of
        None \<Rightarrow> True
      | Some s \<Rightarrow> s = [] \<or> (case varchar_in 2 s of Inl _ \<Rightarrow> False | Inr _ \<Rightarrow> True))"

subsection \<open>The test data of the repository\<close>

text \<open>
  The application \<^verbatim>\<open>48bc5a4b-f8e4-4c4e-8832-1a766715641e\<close> and the first request of
  \<^verbatim>\<open>testing-steps.md\<close>, served at some instant; \<open>test_db_joined\<close> is the database after
  that request.
\<close>

definition test_db :: db where
  "test_db =
     \<lparr>applications =
        [\<lparr>app_application_id = 96682398941923285534479700390281831454,
          app_application_name = ''Test'', app_created_at = 0\<rparr>],
      waitlist_entries = []\<rparr>"

definition test_env :: env where
  "test_env = \<lparr>now = 1704067200000, lookup_failure = None, insert_failure = None\<rparr>"

definition test_body :: JoinWaitlistRequest where
  "test_body =
     \<lparr>applicationId = Some ''48bc5a4b-f8e4-4c4e-8832-1a766715641e'',
      email_field = Some ''test@example.com'',
      sourceUrl = Some ''http://localhost:3000'',
      country_field = Some ''US''\<rparr>"

definition test_request :: request where
  "test_request = \<lparr>req_method = ''POST'', json = Properties test_body\<rparr>"

definition test_entry :: waitlist_entry where
  "test_entry =
     \<lparr>we_id = 1, we_application_id = 96682398941923285534479700390281831454,
      we_email = ''test@example.com'', we_source_url = ''http://localhost:3000'',
      we_country = Some ''US'', we_created_at = 1704067200000\<rparr>"

definition test_db_joined :: db where
  "test_db_joined = test_db\<lparr>waitlist_entries := [test_entry]\<rparr>"

section \<open>What one request does\<close>

lemma falsy_Some [simp]: "falsy (Some s) = (s = [])"
  by (simp add: falsy_def)

lemma falsy_None [simp]: "falsy None"
  by (simp add: falsy_def)

lemma uuid_in_Nil: "uuid_in [] = None"
  by code_simp

lemma coerce_row_Inr:
  "coerce_row i v = Inr row \<Longrightarrow>
     we_id row = i \<and> uuid_in (application_id v) = Some (we_application_id row) \<and>
     varchar_in 320 (email v) = Inr (we_email row)"
  by (auto simp: coerce_row_def split: option.splits sum.splits)

text \<open>An insert either fails and changes nothing, or appends the row it was given.\<close>

lemma insert_cases:
  obtains (failed) err where "insert_waitlist_entry e d v = (Inl err, d)"
  | (inserted) row where
      "insert_waitlist_entry e d v
         = (Inr (gen_random_uuid d), d\<lparr>waitlist_entries := waitlist_entries d @ [row]\<rparr>)"
      "insert_failure e = None"
      "coerce_row (gen_random_uuid d) v = Inr row"
      "valid_email_format (we_email row)"
      "(we_application_id row, we_email row) \<notin> set (registered d)"
      "we_application_id row \<in> set (map app_application_id (applications d))"
proof -
  have "(\<exists>err. insert_waitlist_entry e d v = (Inl err, d)) \<or>
        (\<exists>row. insert_waitlist_entry e d v
                 = (Inr (gen_random_uuid d), d\<lparr>waitlist_entries := waitlist_entries d @ [row]\<rparr>) \<and>
               insert_failure e = None \<and>
               coerce_row (gen_random_uuid d) v = Inr row \<and>
               valid_email_format (we_email row) \<and>
               (we_application_id row, we_email row) \<notin> set (registered d) \<and>
               we_application_id row \<in> set (map app_application_id (applications d)))"
    by (auto simp: insert_waitlist_entry_def dest: coerce_row_Inr split: option.splits sum.splits)
  then show ?thesis
    using failed inserted by blast
qed

lemma try_block_insert:
  assumes "json req = Properties b" and "applicationId b = Some a" and "email_field b = Some em"
    and "sourceUrl b = Some src" and "a \<noteq> []" and "em \<noteq> []" and "src \<noteq> []"
    and "select_application e d a = Inr u"
  shows "try_block e d req =
     (case insert_waitlist_entry e d (inserted_values e b a em src) of
        (Inl error, d') \<Rightarrow>
          if code error = ''23505''
          then (Inr (json_response 409 (failure ''Email already registered'')), d')
          else (Inl (Thrown error), d')
      | (Inr data, d') \<Rightarrow>
          (Inr (json_response 201
                 \<lparr>success = True, id_field = Some data,
                  message = ''Successfully joined waitlist''\<rparr>), d'))"
  using assms by (simp add: try_block_def)

text \<open>The paths through the \<^verbatim>\<open>try\<close> block.\<close>

lemma try_block_cases:
  obtains (syntax_error) "json req = Rejected" "try_block e d req = (Inl SyntaxError, d)"
  | (type_error) "json req = Null" "try_block e d req = (Inl TypeError, d)"
  | (missing) b where "json req = Properties b"
      "falsy (applicationId b) \<or> falsy (email_field b) \<or> falsy (sourceUrl b)"
      "try_block e d req = (Inr (json_response 400 (failure ''Missing required fields'')), d)"
  | (invalid_application) b a em src err where "json req = Properties b"
      "applicationId b = Some a" "email_field b = Some em" "sourceUrl b = Some src"
      "a \<noteq> []" "em \<noteq> []" "src \<noteq> []"
      "select_application e d a = Inl err"
      "try_block e d req = (Inr (json_response 400 (failure ''Invalid application ID'')), d)"
  | (conflict) b a em src u err where "json req = Properties b"
      "applicationId b = Some a" "email_field b = Some em" "sourceUrl b = Some src"
      "a \<noteq> []" "em \<noteq> []" "src \<noteq> []"
      "select_application e d a = Inr u"
      "insert_waitlist_entry e d (inserted_values e b a em src) = (Inl err, d)"
      "code err = ''23505''"
      "try_block e d req = (Inr (json_response 409 (failure ''Email already registered'')), d)"
  | (thrown) b a em src u err where "json req = Properties b"
      "applicationId b = Some a" "email_field b = Some em" "sourceUrl b = Some src"
      "a \<noteq> []" "em \<noteq> []" "src \<noteq> []"
      "select_application e d a = Inr u"
      "insert_waitlist_entry e d (inserted_values e b a em src) = (Inl err, d)"
      "code err \<noteq> ''23505''"
      "try_block e d req = (Inl (Thrown err), d)"
  | (created) b a em src u row where "json req = Properties b"
      "applicationId b = Some a" "email_field b = Some em" "sourceUrl b = Some src"
      "a \<noteq> []" "em \<noteq> []" "src \<noteq> []"
      "select_application e d a = Inr u"
      "insert_failure e = None"
      "coerce_row (gen_random_uuid d) (inserted_values e b a em src) = Inr row"
      "valid_email_format (we_email row)"
      "(we_application_id row, we_email row) \<notin> set (registered d)"
      "try_block e d req =
         (Inr (json_response 201
                \<lparr>success = True, id_field = Some (gen_random_uuid d),
                 message = ''Successfully joined waitlist''\<rparr>),
          d\<lparr>waitlist_entries := waitlist_entries d @ [row]\<rparr>)"
proof (cases "json req")
  case Rejected
  then have "try_block e d req = (Inl SyntaxError, d)"
    by (simp add: try_block_def)
  with Rejected show ?thesis by (rule syntax_error)
next
  case Null
  then have "try_block e d req = (Inl TypeError, d)"
    by (simp add: try_block_def)
  with Null show ?thesis by (rule type_error)
next
  case (Properties b)
  show ?thesis
  proof (cases "falsy (applicationId b) \<or> falsy (email_field b) \<or> falsy (sourceUrl b)")
    case True
    with Properties have "try_block e d req
        = (Inr (json_response 400 (failure ''Missing required fields'')), d)"
      by (simp add: try_block_def)
    with Properties True show ?thesis by (rule missing)
  next
    case False
    then obtain a em src where present:
      "applicationId b = Some a" "email_field b = Some em" "sourceUrl b = Some src"
      "a \<noteq> []" "em \<noteq> []" "src \<noteq> []"
      by (cases "applicationId b"; cases "email_field b"; cases "sourceUrl b") auto
    show ?thesis
    proof (cases "select_application e d a")
      case (Inl err)
      with Properties present have "try_block e d req
          = (Inr (json_response 400 (failure ''Invalid application ID'')), d)"
        by (simp add: try_block_def)
      with Properties present Inl show ?thesis by (rule invalid_application)
    next
      case (Inr u)
      note tb = try_block_insert [OF Properties present Inr]
      show ?thesis
      proof (cases rule: insert_cases [where e = e and d = d and v = "inserted_values e b a em src"])
        case (failed err)
        show ?thesis
        proof (cases "code err = ''23505''")
          case True
          have "try_block e d req
              = (Inr (json_response 409 (failure ''Email already registered'')), d)"
            unfolding tb failed using True by simp
          with Properties present Inr failed True show ?thesis by (rule conflict)
        next
          case False
          have "try_block e d req = (Inl (Thrown err), d)"
            unfolding tb failed using False by simp
          with Properties present Inr failed False show ?thesis by (rule thrown)
        qed
      next
        case (inserted row)
        have "try_block e d req =
           (Inr (json_response 201
                  \<lparr>success = True, id_field = Some (gen_random_uuid d),
                   message = ''Successfully joined waitlist''\<rparr>),
            d\<lparr>waitlist_entries := waitlist_entries d @ [row]\<rparr>)"
          unfolding tb inserted(1) by simp
        with Properties present Inr inserted(2-5) show ?thesis by (rule created)
      qed
    qed
  qed
qed

lemma handler_post:
  "req_method req = ''POST'' \<Longrightarrow>
     handler e d req =
       (case try_block e d req of
          (Inr resp, d') \<Rightarrow> (resp, d')
        | (Inl error, d') \<Rightarrow> (json_response 500 (failure ''Internal server error''), d'))"
  by (simp add: handler_def)

text \<open>A request either leaves the database as it was, or is answered 201 and adds a row.\<close>

lemma handler_cases:
  obtains (unchanged) "snd (handler e d req) = d" "status (fst (handler e d req)) \<noteq> 201"
      "status (fst (handler e d req)) \<in> {200, 400, 405, 409, 500}"
  | (created) b a em src u row where "req_method req = ''POST''" "json req = Properties b"
      "applicationId b = Some a" "email_field b = Some em" "sourceUrl b = Some src"
      "a \<noteq> []" "em \<noteq> []" "src \<noteq> []"
      "select_application e d a = Inr u"
      "insert_failure e = None"
      "coerce_row (gen_random_uuid d) (inserted_values e b a em src) = Inr row"
      "valid_email_format (we_email row)"
      "(we_application_id row, we_email row) \<notin> set (registered d)"
      "handler e d req =
         (json_response 201
            \<lparr>success = True, id_field = Some (gen_random_uuid d),
             message = ''Successfully joined waitlist''\<rparr>,
          d\<lparr>waitlist_entries := waitlist_entries d @ [row]\<rparr>)"
proof (cases "req_method req = ''POST''")
  case False
  then have "snd (handler e d req) = d" "status (fst (handler e d req)) \<noteq> 201"
    "status (fst (handler e d req)) \<in> {200, 400, 405, 409, 500}"
    by (simp_all add: handler_def json_response_def)
  then show ?thesis by (rule unchanged)
next
  case True
  note hp = handler_post [OF True]
  show ?thesis
  proof (cases rule: try_block_cases [where e = e and d = d and req = req])
    case syntax_error
    then have "snd (handler e d req) = d" "status (fst (handler e d req)) \<noteq> 201"
      "status (fst (handler e d req)) \<in> {200, 400, 405, 409, 500}"
      by (simp_all add: hp json_response_def)
    then show ?thesis by (rule unchanged)
  next
    case type_error
    then have "snd (handler e d req) = d" "status (fst (handler e d req)) \<noteq> 201"
      "status (fst (handler e d req)) \<in> {200, 400, 405, 409, 500}"
      by (simp_all add: hp json_response_def)
    then show ?thesis by (rule unchanged)
  next
    case (missing b)
    then have "snd (handler e d req) = d" "status (fst (handler e d req)) \<noteq> 201"
      "status (fst (handler e d req)) \<in> {200, 400, 405, 409, 500}"
      by (simp_all add: hp json_response_def)
    then show ?thesis by (rule unchanged)
  next
    case (invalid_application b a em src err)
    then have "snd (handler e d req) = d" "status (fst (handler e d req)) \<noteq> 201"
      "status (fst (handler e d req)) \<in> {200, 400, 405, 409, 500}"
      by (simp_all add: hp json_response_def)
    then show ?thesis by (rule unchanged)
  next
    case (conflict b a em src u err)
    then have "snd (handler e d req) = d" "status (fst (handler e d req)) \<noteq> 201"
      "status (fst (handler e d req)) \<in> {200, 400, 405, 409, 500}"
      by (simp_all add: hp json_response_def)
    then show ?thesis by (rule unchanged)
  next
    case (thrown b a em src u err)
    then have "snd (handler e d req) = d" "status (fst (handler e d req)) \<noteq> 201"
      "status (fst (handler e d req)) \<in> {200, 400, 405, 409, 500}"
      by (simp_all add: hp json_response_def)
    then show ?thesis by (rule unchanged)
  next
    case (created b a em src u row)
    from created(13) have "handler e d req =
         (json_response 201
            \<lparr>success = True, id_field = Some (gen_random_uuid d),
             message = ''Successfully joined waitlist''\<rparr>,
          d\<lparr>waitlist_entries := waitlist_entries d @ [row]\<rparr>)"
      by (simp add: hp)
    with True created(1-12) show ?thesis by (rule that(2))
  qed
qed





section \<open>Facts about the tables and the column types\<close>

lemma foldr_max_upper: "x \<in> set xs \<Longrightarrow> x \<le> foldr max xs (0::int)"
  by (induction xs) auto

lemma gen_random_uuid_fresh: "gen_random_uuid d \<notin> we_id ` set (waitlist_entries d)"
proof
  assume "gen_random_uuid d \<in> we_id ` set (waitlist_entries d)"
  then have "gen_random_uuid d \<in> set (map we_id (waitlist_entries d))" by simp
  then have "gen_random_uuid d \<le> foldr max (map we_id (waitlist_entries d)) 0"
    by (rule foldr_max_upper)
  then show False by (simp add: gen_random_uuid_def)
qed

lemma splits_append: "(l, r) \<in> set (splits s) \<Longrightarrow> l @ r = s"
  by (induction s arbitrary: l r) auto

lemma domain_and_tld_chars:
  assumes "domain_and_tld s" and "c \<in> set s"
  shows "domain_char c \<or> alpha c"
proof -
  from assms(1) obtain dom r where dr: "(dom, r) \<in> set (splits s)" "list_all domain_char dom"
      and r: "case r of [] \<Rightarrow> False | x # tld \<Rightarrow> x = CHR ''.'' \<and> 2 \<le> length tld \<and> list_all alpha tld"
    by (auto simp: domain_and_tld_def list_ex_iff)
  from r obtain tld where tld: "r = CHR ''.'' # tld" "list_all alpha tld"
    by (cases r) auto
  from dr(1) tld(1) have "s = dom @ CHR ''.'' # tld"
    by (simp add: splits_append [symmetric])
  with assms(2) dr(2) tld(2) show ?thesis
    by (auto simp: list_all_iff domain_char_def)
qed

lemma valid_email_format_chars:
  assumes "valid_email_format s" and "c \<in> set s"
  shows "local_char c \<or> c = CHR ''@'' \<or> domain_char c \<or> alpha c"
proof -
  from assms(1) obtain loc r where lr: "(loc, r) \<in> set (splits s)" "list_all local_char loc"
      and r: "case r of [] \<Rightarrow> False | x # r' \<Rightarrow> x = CHR ''@'' \<and> domain_and_tld r'"
    by (auto simp: valid_email_format_def list_ex_iff)
  from r obtain r' where r': "r = CHR ''@'' # r'" "domain_and_tld r'"
    by (cases r) auto
  from lr(1) r'(1) have "s = loc @ CHR ''@'' # r'"
    by (simp add: splits_append [symmetric])
  with assms(2) lr(2) r'(2) show ?thesis
    by (auto simp: list_all_iff dest: domain_and_tld_chars)
qed

lemma valid_email_format_no_nul: "valid_email_format s \<Longrightarrow> CHR 0x00 \<notin> set s"
  by (auto dest!: valid_email_format_chars simp: local_char_def domain_char_def alpha_def digit_def)

lemma valid_email_format_Nil: "\<not> valid_email_format []"
  by (simp add: valid_email_format_def)

lemma single_row:
  "distinct (map f xs) \<Longrightarrow> x \<in> set xs \<Longrightarrow> filter (\<lambda>a. f a = f x) xs = [x]"
proof (induction xs)
  case Nil
  then show ?case by simp
next
  case (Cons y ys)
  show ?case
  proof (cases "x = y")
    case True
    from Cons.prems(1) have "f y \<notin> f ` set ys" by simp
    then have "\<forall>a\<in>set ys. f a \<noteq> f y" by (metis imageI)
    with True have "filter (\<lambda>a. f a = f x) ys = []"
      by (simp add: filter_empty_conv)
    with True show ?thesis by simp
  next
    case False
    with Cons have "filter (\<lambda>a. f a = f x) ys = [x]" and "f y \<noteq> f x"
      by auto
    then show ?thesis by simp
  qed
qed

lemma existing_application_found:
  assumes "applications_pkey d" and "u \<in> set (map app_application_id (applications d))"
    and "uuid_in a = Some u" and "lookup_failure e = None"
  shows "select_application e d a = Inr u"
proof -
  from assms(2) obtain x where x: "x \<in> set (applications d)" "app_application_id x = u"
    by auto
  from assms(1) x(1)
  have "filter (\<lambda>a. app_application_id a = app_application_id x) (applications d) = [x]"
    unfolding applications_pkey_def by (rule single_row)
  with x(2) assms(3,4) show ?thesis
    by (simp add: select_application_def)
qed


lemma coerce_row_accepted:
  assumes "uuid_in (application_id v) = Some u"
    and "varchar_in 320 (email v) = Inr n"
    and "text_in (source_url v) = Inr s"
    and "country_accepted (country v)" and "country v \<noteq> Some []"
  shows "\<exists>row. coerce_row i v = Inr row \<and> we_id row = i \<and> we_application_id row = u \<and>
           we_email row = n"
  using assms
  by (auto simp: coerce_row_def country_accepted_def split: option.splits sum.splits)



text \<open>Tests 1 and 2 of \<^verbatim>\<open>testing-steps.md\<close>.\<close>

lemma test_request_joins:
  "handler test_env test_db test_request =
     (json_response 201
        \<lparr>success = True, id_field = Some 1, message = ''Successfully joined waitlist''\<rparr>,
      test_db_joined)"
  by code_simp

lemma test_request_repeated:
  "handler test_env test_db_joined test_request =
     (json_response 409 (failure ''Email already registered''), test_db_joined)"
  by code_simp

section \<open>A request that joins the waitlist\<close>

text \<open>
  Claim C1, as the specification states it: every request with a valid application
  identifier, email and source URL, for an application that exists and an email not yet
  registered for it, is answered 201. This fails for a request that also carries a
  country of three letters: the column \<^verbatim>\<open>country VARCHAR(2)\<close> rejects it, the error is not a
  uniqueness violation, the handler throws it and answers 500.
\<close>

theorem country_too_long_counterexample:
  "req_method (test_request\<lparr>json := Properties (test_body\<lparr>country_field := Some ''USA''\<rparr>)\<rparr>) = ''POST'' \<and>
   uuid_in ''48bc5a4b-f8e4-4c4e-8832-1a766715641e'' = Some 96682398941923285534479700390281831454 \<and>
   96682398941923285534479700390281831454 \<in> set (map app_application_id (applications test_db)) \<and>
   valid_email_format (trim (toLowerCase ''test@example.com'')) \<and>
   registered test_db = [] \<and>
   handler test_env test_db
       (test_request\<lparr>json := Properties (test_body\<lparr>country_field := Some ''USA''\<rparr>)\<rparr>)
     = (json_response 500 (failure ''Internal server error''), test_db) \<and>
   status (fst (handler test_env test_db
       (test_request\<lparr>json := Properties (test_body\<lparr>country_field := Some ''USA''\<rparr>)\<rparr>))) \<noteq> 201"
  by code_simp

text \<open>
  Claim C1, amended. Take a POST request whose application identifier is a well-formed
  UUID of an existing application (one row of \<^verbatim>\<open>applications\<close> carries it, and the primary
  key holds), whose email, lower-cased and trimmed, satisfies the check constraint and
  is at most 320 characters long, whose source URL is a non-empty text that does not
  contain the character U+0000 (which no \<^verbatim>\<open>TEXT\<close> column stores), whose country is absent,
  empty or a text that the two-character column takes, and whose application and
  normalised email are not yet registered together. When the database service answers
  both calls, the handler returns status 201 with the body
  \<^verbatim>\<open>{success:true, id, message:"Successfully joined waitlist"}\<close>, where \<^verbatim>\<open>id\<close> is an
  identifier that no entry carried before, and a query for that identifier afterwards
  returns exactly one row, whose email is the submitted email lower-cased and trimmed.
\<close>

theorem joined_waitlist:
  assumes "req_method req = ''POST''" and "json req = Properties b"
    and "applicationId b = Some a" and "email_field b = Some em" and "sourceUrl b = Some src"
    and "uuid_in a = Some u"
    and "u \<in> set (map app_application_id (applications d))" and "applications_pkey d"
    and "valid_email_format (trim (toLowerCase em))" and "length (trim (toLowerCase em)) \<le> 320"
    and "src \<noteq> []" and "CHR 0x00 \<notin> set src"
    and "(u, trim (toLowerCase em)) \<notin> set (registered d)"
    and "country_accepted (country_field b)"
    and "lookup_failure e = None" and "insert_failure e = None"
  shows "fst (handler e d req) =
           json_response 201
             \<lparr>success = True, id_field = Some (gen_random_uuid d),
              message = ''Successfully joined waitlist''\<rparr> \<and>
         select_entry d (gen_random_uuid d) = [] \<and>
         (\<exists>row. select_entry (snd (handler e d req)) (gen_random_uuid d) = [row] \<and>
                we_email row = trim (toLowerCase em))"
proof -
  let ?n = "trim (toLowerCase em)"
  let ?v = "inserted_values e b a em src"
  let ?i = "gen_random_uuid d"
  have a: "a \<noteq> []" using assms(6) uuid_in_Nil by auto
  have em: "em \<noteq> []"
    using assms(9) valid_email_format_Nil by (auto simp: trim_def toLowerCase_def)
  have found: "select_application e d a = Inr u"
    using assms(8,7,6,15) by (rule existing_application_found)
  have "varchar_in 320 ?n = Inr ?n"
    using assms(9,10) by (simp add: varchar_in_def valid_email_format_no_nul)
  moreover have "text_in src = Inr src"
    using assms(12) by (simp add: text_in_def)
  moreover have "country_accepted (country ?v)" "country ?v \<noteq> Some []"
    using assms(14) by (auto simp: country_accepted_def falsy_def split: option.splits)
  ultimately obtain row where row: "coerce_row ?i ?v = Inr row" "we_id row = ?i"
      "we_application_id row = u" "we_email row = ?n"
    using assms(6) coerce_row_accepted [of ?v u ?n src ?i] by auto
  have fresh: "?i \<notin> we_id ` set (waitlist_entries d)"
    by (rule gen_random_uuid_fresh)
  have "insert_waitlist_entry e d ?v
          = (Inr ?i, d\<lparr>waitlist_entries := waitlist_entries d @ [row]\<rparr>)"
    using row fresh assms(7,9,13,16) by (simp add: insert_waitlist_entry_def)
  then have h: "handler e d req =
      (json_response 201
         \<lparr>success = True, id_field = Some ?i, message = ''Successfully joined waitlist''\<rparr>,
       d\<lparr>waitlist_entries := waitlist_entries d @ [row]\<rparr>)"
    unfolding handler_post [OF assms(1)] try_block_insert [OF assms(2-5) a em assms(11) found]
    by simp
  have none: "select_entry d ?i = []"
    unfolding select_entry_def filter_empty_conv using fresh by (metis imageI)
  then have "select_entry (snd (handler e d req)) ?i = [row]"
    using row(2) by (simp add: h select_entry_def)
  with h none row(4) show ?thesis by simp
qed

text \<open>
  The example of the specification: the email \<^verbatim>\<open>"  User@Example.com "\<close> is stored as
  \<^verbatim>\<open>"user@example.com"\<close>.
\<close>

theorem joined_waitlist_witness:
  "trim (toLowerCase ''  User@Example.com '') = ''user@example.com'' \<and>
   valid_email_format (trim (toLowerCase ''  User@Example.com '')) \<and>
   CHR 0x00 \<notin> set ''http://localhost:3000'' \<and>
   country_accepted (country_field (test_body\<lparr>email_field := Some ''  User@Example.com ''\<rparr>)) \<and>
   fst (handler test_env test_db
          (test_request\<lparr>json := Properties (test_body\<lparr>email_field := Some ''  User@Example.com ''\<rparr>)\<rparr>)) =
     json_response 201
       \<lparr>success = True, id_field = Some (gen_random_uuid test_db),
        message = ''Successfully joined waitlist''\<rparr> \<and>
   select_entry test_db (gen_random_uuid test_db) = [] \<and>
   (\<exists>row. select_entry
            (snd (handler test_env test_db
               (test_request\<lparr>json := Properties
                  (test_body\<lparr>email_field := Some ''  User@Example.com ''\<rparr>)\<rparr>)))
            (gen_random_uuid test_db) = [row] \<and>
          we_email row = ''user@example.com'')"
proof -
  let ?em = "''  User@Example.com ''"
  let ?b = "test_body\<lparr>email_field := Some ?em\<rparr>"
  let ?req = "test_request\<lparr>json := Properties ?b\<rparr>"
  have n: "trim (toLowerCase ?em) = ''user@example.com''" by code_simp
  have 1: "req_method ?req = ''POST''" by (simp add: test_request_def)
  have 2: "json ?req = Properties ?b" by simp
  have 3: "applicationId ?b = Some ''48bc5a4b-f8e4-4c4e-8832-1a766715641e''"
    by (simp add: test_body_def)
  have 4: "email_field ?b = Some ?em" by simp
  have 5: "sourceUrl ?b = Some ''http://localhost:3000''" by (simp add: test_body_def)
  have 6: "uuid_in ''48bc5a4b-f8e4-4c4e-8832-1a766715641e''
             = Some 96682398941923285534479700390281831454" by code_simp
  have 7: "96682398941923285534479700390281831454
             \<in> set (map app_application_id (applications test_db))"
    by (simp add: test_db_def)
  have 8: "applications_pkey test_db" by (simp add: applications_pkey_def test_db_def)
  have 9: "valid_email_format (trim (toLowerCase ?em))" by code_simp
  have 10: "length (trim (toLowerCase ?em)) \<le> 320" by code_simp
  have 11: "''http://localhost:3000'' \<noteq> []" by simp
  have 12: "CHR 0x00 \<notin> set ''http://localhost:3000''" by simp
  have 13: "(96682398941923285534479700390281831454, trim (toLowerCase ?em))
              \<notin> set (registered test_db)"
    by (simp add: registered_def test_db_def)
  have 14: "country_accepted (country_field ?b)" by code_simp
  have 15: "lookup_failure test_env = None" by (simp add: test_env_def)
  have 16: "insert_failure test_env = None" by (simp add: test_env_def)
  note joined = joined_waitlist [OF 1 2 3 4 5 6 7 8 9 10 11 12 13 14 15 16]
  from joined have "fst (handler test_env test_db ?req) =
     json_response 201
       \<lparr>success = True, id_field = Some (gen_random_uuid test_db),
        message = ''Successfully joined waitlist''\<rparr>"
    and "select_entry test_db (gen_random_uuid test_db) = []"
    and "\<exists>row. select_entry (snd (handler test_env test_db ?req)) (gen_random_uuid test_db)
            = [row] \<and> we_email row = ''user@example.com''"
    unfolding n by blast+
  with n 9 12 14 show ?thesis by blast
qed

section \<open>Duplicates\<close>



text \<open>
  Claim C4. When a request reaches the insert, and the insert fails with an error whose
  code is 23505 (a uniqueness violation), the handler returns status 409 with the body
  \<^verbatim>\<open>{success:false, message:"Email already registered"}\<close>.
\<close>

theorem unique_violation_conflict:
  assumes "req_method req = ''POST''" and "json req = Properties b"
    and "applicationId b = Some a" and "email_field b = Some em" and "sourceUrl b = Some src"
    and "a \<noteq> []" and "em \<noteq> []" and "src \<noteq> []"
    and "select_application e d a = Inr u"
    and "fst (insert_waitlist_entry e d (inserted_values e b a em src)) = Inl err"
    and "code err = ''23505''"
  shows "handler e d req = (json_response 409 (failure ''Email already registered''), d)"
proof (cases rule: insert_cases [where e = e and d = d and v = "inserted_values e b a em src"])
  case (failed err')
  with assms(10) have "err' = err" by simp
  with failed assms(11) show ?thesis
    unfolding handler_post [OF assms(1)] try_block_insert [OF assms(2-9)] by simp
next
  case (inserted row)
  with assms(10) show ?thesis by simp
qed

theorem unique_violation_conflict_witness:
  "select_application test_env test_db_joined ''48bc5a4b-f8e4-4c4e-8832-1a766715641e''
     = Inr 96682398941923285534479700390281831454 \<and>
   fst (insert_waitlist_entry test_env test_db_joined
          (inserted_values test_env test_body ''48bc5a4b-f8e4-4c4e-8832-1a766715641e''
             ''test@example.com'' ''http://localhost:3000''))
     = Inl (unique_violation ''waitlist_entries_application_id_email_key'') \<and>
   code (unique_violation ''waitlist_entries_application_id_email_key'') = ''23505'' \<and>
   handler test_env test_db_joined test_request
     = (json_response 409 (failure ''Email already registered''), test_db_joined)"
proof -
  let ?a = "''48bc5a4b-f8e4-4c4e-8832-1a766715641e''"
  let ?em = "''test@example.com''"
  let ?src = "''http://localhost:3000''"
  have 1: "req_method test_request = ''POST''" by (simp add: test_request_def)
  have 2: "json test_request = Properties test_body" by (simp add: test_request_def)
  have 3: "applicationId test_body = Some ?a" by (simp add: test_body_def)
  have 4: "email_field test_body = Some ?em" by (simp add: test_body_def)
  have 5: "sourceUrl test_body = Some ?src" by (simp add: test_body_def)
  have 6: "?a \<noteq> []" "?em \<noteq> []" "?src \<noteq> []" by simp_all
  have 7: "select_application test_env test_db_joined ?a
             = Inr 96682398941923285534479700390281831454"
    by code_simp
  have 8: "fst (insert_waitlist_entry test_env test_db_joined
                  (inserted_values test_env test_body ?a ?em ?src))
             = Inl (unique_violation ''waitlist_entries_application_id_email_key'')"
    by code_simp
  have 9: "code (unique_violation ''waitlist_entries_application_id_email_key'') = ''23505''"
    by (simp add: unique_violation_def)
  from unique_violation_conflict [OF 1 2 3 4 5 6 7 8 9] 7 8 9 show ?thesis by simp
qed

text \<open>
  Claim C3. In every state of the database that the handler can bring about, no two
  waitlist entries have the same application identifier and the same email; and every
  request served by the handler keeps it so.
\<close>

theorem uniqueness_invariant:
  "(reachable d \<longrightarrow> unique_application_email d) \<and>
   (unique_application_email d \<longrightarrow> unique_application_email (snd (handler e d req)))"
proof -
  have keeps: "unique_application_email (snd (handler e d req))"
    if "unique_application_email d" for e d req
  proof (cases rule: handler_cases [where e = e and d = d and req = req])
    case unchanged
    with that show ?thesis by simp
  next
    case (created b a em src u row)
    with that show ?thesis
      by (simp add: unique_application_email_def registered_def)
  qed
  have "unique_application_email d" if "reachable d"
    using that
  proof (induction rule: reachable.induct)
    case (initial d)
    then show ?case by (simp add: unique_application_email_def registered_def)
  next
    case (step d e req)
    then show ?case by (simp add: keeps)
  qed
  with keeps show ?thesis by blast
qed

theorem uniqueness_invariant_witness:
  "reachable test_db_joined \<and> unique_application_email test_db_joined \<and>
   unique_application_email (snd (handler test_env test_db_joined test_request))"
proof -
  have "reachable test_db"
    by (rule reachable.initial) (simp add: test_db_def)
  then have "reachable (snd (handler test_env test_db test_request))"
    by (rule reachable.step)
  then have r: "reachable test_db_joined"
    by (simp add: test_request_joins)
  with uniqueness_invariant [of test_db_joined test_env test_request] show ?thesis
    by simp
qed

text \<open>
  Claim C7. A request answered 201 adds exactly one row to \<^verbatim>\<open>waitlist_entries\<close> and
  changes nothing else; a request answered otherwise (200 for the pre-flight check, 405,
  400, 409 or 500) leaves the database as it was.
\<close>

theorem side_effect_bound:
  "(status (fst (handler e d req)) = 201 \<longrightarrow>
      (\<exists>row. snd (handler e d req) = d\<lparr>waitlist_entries := waitlist_entries d @ [row]\<rparr>)) \<and>
   (status (fst (handler e d req)) \<noteq> 201 \<longrightarrow>
      status (fst (handler e d req)) \<in> {200, 400, 405, 409, 500} \<and> snd (handler e d req) = d)"
proof (cases rule: handler_cases [where e = e and d = d and req = req])
  case unchanged
  then show ?thesis by simp
next
  case (created b a em src u row)
  then have "status (fst (handler e d req)) = 201"
    and "snd (handler e d req) = d\<lparr>waitlist_entries := waitlist_entries d @ [row]\<rparr>"
    by (simp_all add: json_response_def)
  then show ?thesis by blast
qed

theorem side_effect_bound_witness:
  "status (fst (handler test_env test_db test_request)) = 201 \<and>
   (\<exists>row. snd (handler test_env test_db test_request)
            = test_db\<lparr>waitlist_entries := waitlist_entries test_db @ [row]\<rparr>) \<and>
   status (fst (handler test_env test_db_joined test_request)) = 409 \<and>
   snd (handler test_env test_db_joined test_request) = test_db_joined"
proof -
  have created: "status (fst (handler test_env test_db test_request)) = 201"
    by (simp add: test_request_joins json_response_def)
  have rejected: "status (fst (handler test_env test_db_joined test_request)) = 409"
    by (simp add: test_request_repeated json_response_def)
  from side_effect_bound [of test_env test_db test_request] created
  have "\<exists>row. snd (handler test_env test_db test_request)
            = test_db\<lparr>waitlist_entries := waitlist_entries test_db @ [row]\<rparr>"
    by simp
  moreover from side_effect_bound [of test_env test_db_joined test_request] rejected
  have "snd (handler test_env test_db_joined test_request) = test_db_joined"
    by simp
  ultimately show ?thesis using created rejected by simp
qed

section \<open>Rejected requests\<close>

text \<open>
  Claim C5, as the specification states it: every POST request whose parsed body lacks
  one of the required fields is answered 400. This fails for the body \<^verbatim>\<open>null\<close>, which is
  valid JSON and has none of the fields: destructuring it throws, and the answer is 500.
\<close>

theorem null_body_counterexample:
  "req_method (test_request\<lparr>json := Null\<rparr>) = ''POST'' \<and>
   json (test_request\<lparr>json := Null\<rparr>) = Null \<and>
   handler test_env test_db (test_request\<lparr>json := Null\<rparr>)
     = (json_response 500 (failure ''Internal server error''), test_db) \<and>
   fst (handler test_env test_db (test_request\<lparr>json := Null\<rparr>))
     \<noteq> json_response 400 (failure ''Missing required fields'')"
  by code_simp

text \<open>
  Claim C5, amended. A POST request whose parsed body is not \<^verbatim>\<open>null\<close> and lacks one of
  \<^verbatim>\<open>applicationId\<close>, \<^verbatim>\<open>email\<close> and \<^verbatim>\<open>sourceUrl\<close>, or carries a falsy value for it (the empty
  string included), is answered with status 400 and the body
  \<^verbatim>\<open>{success:false, message:"Missing required fields"}\<close>, whichever of the three it is.
\<close>

theorem missing_required_fields:
  assumes "req_method req = ''POST''" and "json req = Properties b"
    and "falsy (applicationId b) \<or> falsy (email_field b) \<or> falsy (sourceUrl b)"
  shows "handler e d req = (json_response 400 (failure ''Missing required fields''), d)"
  using assms by (auto simp: handler_post try_block_def)

theorem missing_required_fields_witness:
  "req_method (test_request\<lparr>json := Properties (test_body\<lparr>email_field := Some ''''\<rparr>)\<rparr>) = ''POST'' \<and>
   json (test_request\<lparr>json := Properties (test_body\<lparr>email_field := Some ''''\<rparr>)\<rparr>)
     = Properties (test_body\<lparr>email_field := Some ''''\<rparr>) \<and>
   falsy (email_field (test_body\<lparr>email_field := Some ''''\<rparr>)) \<and>
   handler test_env test_db
       (test_request\<lparr>json := Properties (test_body\<lparr>email_field := Some ''''\<rparr>)\<rparr>)
     = (json_response 400 (failure ''Missing required fields''), test_db)"
proof -
  let ?b = "test_body\<lparr>email_field := Some ''''\<rparr>"
  let ?req = "test_request\<lparr>json := Properties ?b\<rparr>"
  have m: "req_method ?req = ''POST''" by (simp add: test_request_def)
  have j: "json ?req = Properties ?b" by simp
  have f: "falsy (applicationId ?b) \<or> falsy (email_field ?b) \<or> falsy (sourceUrl ?b)" by simp
  from missing_required_fields [OF m j f, of test_env test_db] m j show ?thesis by simp
qed

text \<open>
  Claim C6. A POST request with the three required fields and a well-formed application
  identifier that no row of \<^verbatim>\<open>applications\<close> carries is answered with status 400 and the
  body \<^verbatim>\<open>{success:false, message:"Invalid application ID"}\<close>.
\<close>

theorem unknown_application_invalid:
  assumes "req_method req = ''POST''" and "json req = Properties b"
    and "applicationId b = Some a"
    and "\<not> falsy (email_field b)" and "\<not> falsy (sourceUrl b)"
    and "uuid_in a = Some u" and "u \<notin> set (map app_application_id (applications d))"
  shows "handler e d req = (json_response 400 (failure ''Invalid application ID''), d)"
proof -
  have "filter (\<lambda>x. app_application_id x = u) (applications d) = []"
    using assms(7) by (auto simp: filter_empty_conv)
  then have "\<exists>err. select_application e d a = Inl err"
    using assms(6) by (simp add: select_application_def split: option.splits)
  moreover have "a \<noteq> []"
    using assms(6) uuid_in_Nil by auto
  ultimately show ?thesis
    using assms by (auto simp: handler_post try_block_def falsy_def split: option.splits)
qed

theorem unknown_application_invalid_witness:
  "req_method (test_request\<lparr>json := Properties
      (test_body\<lparr>applicationId := Some ''11111111-2222-3333-4444-555555555555''\<rparr>)\<rparr>) = ''POST'' \<and>
   uuid_in ''11111111-2222-3333-4444-555555555555''
     = Some 22685491133344522328127039013544875349 \<and>
   22685491133344522328127039013544875349
     \<notin> set (map app_application_id (applications test_db)) \<and>
   handler test_env test_db
       (test_request\<lparr>json := Properties
          (test_body\<lparr>applicationId := Some ''11111111-2222-3333-4444-555555555555''\<rparr>)\<rparr>)
     = (json_response 400 (failure ''Invalid application ID''), test_db)"
proof -
  let ?a = "''11111111-2222-3333-4444-555555555555''"
  let ?b = "test_body\<lparr>applicationId := Some ?a\<rparr>"
  let ?req = "test_request\<lparr>json := Properties ?b\<rparr>"
  have m: "req_method ?req = ''POST''" by (simp add: test_request_def)
  have j: "json ?req = Properties ?b" by simp
  have a: "applicationId ?b = Some ?a" by simp
  have em: "\<not> falsy (email_field ?b)" by (simp add: test_body_def)
  have src: "\<not> falsy (sourceUrl ?b)" by (simp add: test_body_def)
  have u: "uuid_in ?a = Some 22685491133344522328127039013544875349" by code_simp
  have ne: "22685491133344522328127039013544875349
              \<notin> set (map app_application_id (applications test_db))"
    by (simp add: test_db_def)
  from unknown_application_invalid [OF m j a em src u ne, of test_env] m u ne
  show ?thesis by simp
qed

text \<open>
  Claim C10. Whatever error the lookup of the application returns, a failure of the
  database service that has nothing to do with the identifier included, the answer is
  status 400 with \<^verbatim>\<open>{success:false, message:"Invalid application ID"}\<close>. In the witness
  the lookup fails for an application that exists: the outage is reported as an error of
  the client.
\<close>

theorem lookup_error_invalid_application:
  assumes "req_method req = ''POST''" and "json req = Properties b"
    and "applicationId b = Some a" and "a \<noteq> []"
    and "\<not> falsy (email_field b)" and "\<not> falsy (sourceUrl b)"
    and "select_application e d a = Inl err"
  shows "handler e d req = (json_response 400 (failure ''Invalid application ID''), d)"
  using assms by (auto simp: handler_post try_block_def falsy_def split: option.splits)

theorem lookup_error_invalid_application_witness:
  "req_method test_request = ''POST'' \<and> json test_request = Properties test_body \<and>
   applicationId test_body = Some ''48bc5a4b-f8e4-4c4e-8832-1a766715641e'' \<and>
   \<not> falsy (email_field test_body) \<and> \<not> falsy (sourceUrl test_body) \<and>
   select_application (test_env\<lparr>lookup_failure := Some (PgError '''' ''fetch failed'')\<rparr>) test_db
       ''48bc5a4b-f8e4-4c4e-8832-1a766715641e'' = Inl (PgError '''' ''fetch failed'') \<and>
   select_application test_env test_db ''48bc5a4b-f8e4-4c4e-8832-1a766715641e''
     = Inr 96682398941923285534479700390281831454 \<and>
   handler (test_env\<lparr>lookup_failure := Some (PgError '''' ''fetch failed'')\<rparr>) test_db test_request
     = (json_response 400 (failure ''Invalid application ID''), test_db)"
proof -
  let ?e = "test_env\<lparr>lookup_failure := Some (PgError '''' ''fetch failed'')\<rparr>"
  let ?a = "''48bc5a4b-f8e4-4c4e-8832-1a766715641e''"
  have m: "req_method test_request = ''POST''" by (simp add: test_request_def)
  have j: "json test_request = Properties test_body" by (simp add: test_request_def)
  have a: "applicationId test_body = Some ?a" by (simp add: test_body_def)
  have n: "?a \<noteq> []" by simp
  have em: "\<not> falsy (email_field test_body)" by (simp add: test_body_def)
  have src: "\<not> falsy (sourceUrl test_body)" by (simp add: test_body_def)
  have l: "select_application ?e test_db ?a = Inl (PgError '''' ''fetch failed'')"
    by (simp add: select_application_def)
  have ok: "select_application test_env test_db ?a = Inr 96682398941923285534479700390281831454"
    by code_simp
  from lookup_error_invalid_application [OF m j a n em src l] m j a em src l ok
  show ?thesis by simp
qed

section \<open>Exceptions\<close>

text \<open>
  Claim C9. A POST request whose body is not valid JSON is answered with status 500 and
  \<^verbatim>\<open>{success:false, message:"Internal server error"}\<close>, not with the 400 of a missing
  field: the rejected \<^verbatim>\<open>req.json()\<close> is caught by the handler's catch block.
\<close>

theorem invalid_json_internal_server_error:
  assumes "req_method req = ''POST''" and "json req = Rejected"
  shows "handler e d req = (json_response 500 (failure ''Internal server error''), d)
       \<and> fst (handler e d req) \<noteq> json_response 400 (failure ''Missing required fields'')"
  using assms by (simp add: handler_post try_block_def json_response_def)

theorem invalid_json_internal_server_error_witness:
  "req_method (test_request\<lparr>json := Rejected\<rparr>) = ''POST'' \<and>
   json (test_request\<lparr>json := Rejected\<rparr>) = Rejected \<and>
   handler test_env test_db (test_request\<lparr>json := Rejected\<rparr>)
     = (json_response 500 (failure ''Internal server error''), test_db)"
proof -
  let ?req = "test_request\<lparr>json := Rejected\<rparr>"
  have m: "req_method ?req = ''POST''" by (simp add: test_request_def)
  have j: "json ?req = Rejected" by simp
  from invalid_json_internal_server_error [OF m j, of test_env test_db] m j show ?thesis by simp
qed

text \<open>
  Claim C8. When an exception is raised inside the \<^verbatim>\<open>try\<close> block, at whichever step, the
  answer is status 500 with the fixed body \<^verbatim>\<open>{success:false, message:"Internal server error"}\<close>.
  The answer is the same for every exception, so nothing of the error reaches the
  caller. The witness is the malformed email of test 6: the check constraint rejects it,
  the handler throws the error, and the name of the constraint is not in the answer.
\<close>

theorem exception_internal_server_error:
  assumes "req_method req = ''POST''" and "fst (try_block e d req) = Inl ex"
  shows "handler e d req = (json_response 500 (failure ''Internal server error''), d)"
  using assms(2) by (cases rule: try_block_cases [where e = e and d = d and req = req])
    (simp_all add: handler_post [OF assms(1)])

theorem exception_internal_server_error_witness:
  "req_method (test_request\<lparr>json := Properties (test_body\<lparr>email_field := Some ''invalid-email''\<rparr>)\<rparr>)
     = ''POST'' \<and>
   fst (try_block test_env test_db
          (test_request\<lparr>json := Properties (test_body\<lparr>email_field := Some ''invalid-email''\<rparr>)\<rparr>))
     = Inl (Thrown check_violation) \<and>
   handler test_env test_db
       (test_request\<lparr>json := Properties (test_body\<lparr>email_field := Some ''invalid-email''\<rparr>)\<rparr>)
     = (json_response 500 (failure ''Internal server error''), test_db)"
proof -
  let ?req = "test_request\<lparr>json := Properties (test_body\<lparr>email_field := Some ''invalid-email''\<rparr>)\<rparr>"
  have m: "req_method ?req = ''POST''" by (simp add: test_request_def)
  have t: "fst (try_block test_env test_db ?req) = Inl (Thrown check_violation)" by code_simp
  from exception_internal_server_error [OF m t] m t show ?thesis by simp
qed

end
